theory Spec2Isabelle
  imports Main "HOL-Library.Word"
begin

section \<open>Common types\<close>

text \<open>\<^verbatim>\<open>model.Ts\<close> is \<^verbatim>\<open>uint64\<close>; comparison on words is the unsigned one.\<close>

type_synonym ts = "64 word"

text \<open>A Go panic (\<^verbatim>\<open>log.Panic\<close>, nil dereference) is a value, so that it is a branch of
  the model.\<close>

datatype panic = Panic string

section \<open>Source manager: the split-update predicate\<close>

text \<open>\<^verbatim>\<open>cdc/processor/sourcemanager/manager.go\<close>. A raw KV entry as the puller delivers it.\<close>

datatype op_type = OpTypePut | OpTypeDelete | OpTypeResolved

record RawKVEntry =
  OpType :: op_type
  Key :: string
  Value :: "string option"
  OldValue :: "string option"
  StartTs :: ts
  CRTs :: ts

text \<open>\<^verbatim>\<open>PullerSplitUpdateMode\<close> is an \<^verbatim>\<open>int32\<close> with three named values.\<close>

type_synonym PullerSplitUpdateMode = "32 word"

definition PullerSplitUpdateModeNone :: PullerSplitUpdateMode where
  "PullerSplitUpdateModeNone = 0"

definition PullerSplitUpdateModeAtStart :: PullerSplitUpdateMode where
  "PullerSplitUpdateModeAtStart = 1"

definition PullerSplitUpdateModeAlways :: PullerSplitUpdateMode where
  "PullerSplitUpdateModeAlways = 2"

text \<open>\<^verbatim>\<open>isOldUpdateKVEntry\<close>. The method \<^verbatim>\<open>RawKVEntry.IsUpdate\<close> belongs to package
  \<^verbatim>\<open>model\<close> and is a parameter; \<^verbatim>\<open>getReplicaTs\<close> is the value the callback returns; a nil
  pointer is \<open>None\<close>.\<close>

definition isOldUpdateKVEntry ::
  "(RawKVEntry \<Rightarrow> bool) \<Rightarrow> RawKVEntry option \<Rightarrow> ts \<Rightarrow> bool" where
  "isOldUpdateKVEntry IsUpdate raw getReplicaTs =
     (case raw of None \<Rightarrow> False
      | Some r \<Rightarrow> IsUpdate r \<and> CRTs r < getReplicaTs)"

text \<open>The closure \<^verbatim>\<open>shouldSplitKVEntry\<close> built in \<^verbatim>\<open>SourceManager.AddTable\<close>; the
  \<^verbatim>\<open>default\<close> branch of the switch panics.\<close>

definition shouldSplitKVEntry ::
  "(RawKVEntry \<Rightarrow> bool) \<Rightarrow> PullerSplitUpdateMode \<Rightarrow> ts \<Rightarrow> RawKVEntry option \<Rightarrow> panic + bool" where
  "shouldSplitKVEntry IsUpdate splitUpdateMode getReplicaTs raw =
     (case raw of None \<Rightarrow> Inr False
      | Some r \<Rightarrow>
          if \<not> IsUpdate r then Inr False
          else if splitUpdateMode = PullerSplitUpdateModeNone then Inr False
          else if splitUpdateMode = PullerSplitUpdateModeAlways then Inr True
          else if splitUpdateMode = PullerSplitUpdateModeAtStart
            then Inr (isOldUpdateKVEntry IsUpdate raw getReplicaTs)
          else Inl (Panic ''Unknown split update mode''))"

text \<open>An instance of \<^verbatim>\<open>IsUpdate\<close> for the concrete runs below: a PUT that carries both a
  value and an old value.\<close>

definition putWithOldValue :: "RawKVEntry \<Rightarrow> bool" where
  "putWithOldValue r = (OpType r = OpTypePut \<and> OldValue r \<noteq> None \<and> Value r \<noteq> None)"

definition updateAt :: "ts \<Rightarrow> RawKVEntry" where
  "updateAt commitTs =
     \<lparr>OpType = OpTypePut, Key = ''k'', Value = Some ''v'', OldValue = Some ''o'',
      StartTs = 1, CRTs = commitTs\<rparr>"

section \<open>DDL job puller: data\<close>

text \<open>\<^verbatim>\<open>cdc/puller/ddl_puller.go\<close>. Of \<^verbatim>\<open>timodel.ActionType\<close> the constructors are the
  values this code names; every other value is \<open>ActionOther\<close>.\<close>

datatype ActionType =
    ActionNone
  | ActionCreateSchema
  | ActionDropSchema
  | ActionCreateTable
  | ActionRenameTable
  | ActionRenameTables
  | ActionCreateTables
  | ActionOther nat

text \<open>The errors the puller builds itself, and \<open>ErrExternal\<close> for an error handed back by a
  collaborator (schema storage, snapshot, decoder).\<close>

datatype error =
    ErrInvalidDDLJob int
  | ErrSyncRenameTableFailed int string
  | ErrEligibleBecameIneligible string
  | ErrDecodeArgs
  | ErrExternal string
  | ContextCanceled

text \<open>\<^verbatim>\<open>timodel.TableInfo\<close>: its id and \<^verbatim>\<open>Name.O\<close>.\<close>

record TableInfo =
  TableInfo_ID :: int
  TableInfo_Name :: string

text \<open>The raw arguments of a job are JSON. For a RenameTables job they are five parallel
  arrays; the JSON layer is the constructor \<open>RenameTablesArgs\<close>, and anything else does not
  decode into five arrays.\<close>

datatype RawArgs =
    RenameTablesArgs "int list" "int list" "string list" "int list" "string list"
  | OtherArgs string

record BinlogInfo =
  FinishedTS :: ts
  SchemaVersion :: int
  BinlogTableInfo :: "TableInfo option"
  MultipleTableInfos :: "TableInfo list"

record Job =
  JobID :: int
  JobType :: ActionType
  SchemaID :: int
  TableID :: int
  SchemaName :: string
  TableName :: string
  Query :: string
  JobBinlogInfo :: BinlogInfo
  JobRawArgs :: RawArgs

text \<open>\<^verbatim>\<open>job.DecodeArgs\<close> with five destinations.\<close>

definition DecodeArgs ::
  "Job \<Rightarrow> error + (int list \<times> int list \<times> string list \<times> int list \<times> string list)" where
  "DecodeArgs job =
     (case JobRawArgs job of
        RenameTablesArgs oldSchemaIDs newSchemaIDs newTableNames oldTableIDs oldSchemaNames \<Rightarrow>
          Inr (oldSchemaIDs, newSchemaIDs, newTableNames, oldTableIDs, oldSchemaNames)
      | OtherArgs _ \<Rightarrow> Inl ErrDecodeArgs)"

text \<open>\<^verbatim>\<open>model.TableInfo\<close> as a snapshot returns it: \<^verbatim>\<open>TableName.Schema\<close>,
  \<^verbatim>\<open>TableName.Table\<close> and \<^verbatim>\<open>Name.O\<close>.\<close>

record PhysicalTable =
  TableName_Schema :: string
  TableName_Table :: string
  Name_O :: string

text \<open>Modelled from the spec: \<^verbatim>\<open>Snapshot.FillSchemaName\<close> of package \<^verbatim>\<open>schema\<close> is
  missing; the spec has it populate \<^verbatim>\<open>schema_name\<close> and \<^verbatim>\<open>table_name\<close> of the job from
  ids, so the field gives the error, or nil, and the two names the job has afterwards. The
  other three fields are the lookups of a snapshot that the puller calls.\<close>

record Snapshot =
  PhysicalTableByID :: "int \<Rightarrow> PhysicalTable option"
  SchemaByID :: "int \<Rightarrow> string option"
  IsIneligibleTableID :: "int \<Rightarrow> bool"
  FillSchemaName :: "Job \<Rightarrow> error option \<times> string \<times> string"

definition fillSchemaName :: "Snapshot \<Rightarrow> Job \<Rightarrow> error option \<times> Job" where
  "fillSchemaName snap job =
     (case FillSchemaName snap job of
        (err, schemaName, tableName) \<Rightarrow>
          (err, job\<lparr>SchemaName := schemaName, TableName := tableName\<rparr>))"

text \<open>The collaborators of the job puller: the filter, \<^verbatim>\<open>filter.IsSchemaDDL\<close>, the schema
  storage (an interface, over a state \<open>'st\<close>), and the decoding of a raw KV entry into a
  job. \<open>initJobTableMetaResult\<close> is what \<^verbatim>\<open>initJobTableMeta\<close> finds in the KV store: an
  error, or the table \<^verbatim>\<open>tidb_ddl_job\<close> and the column id of \<^verbatim>\<open>job_meta\<close>.\<close>

record 'st Env =
  ShouldDiscardDDL :: "ActionType \<Rightarrow> string \<Rightarrow> string \<Rightarrow> bool"
  IsSchemaDDL :: "ActionType \<Rightarrow> bool"
  AdvanceResolvedTs :: "ts \<Rightarrow> 'st \<Rightarrow> 'st"
  GetLastSnapshot :: "'st \<Rightarrow> Snapshot"
  HandleDDLJob :: "Job \<Rightarrow> 'st \<Rightarrow> error option \<times> 'st"
  IsLegacyFormatJob :: "RawKVEntry \<Rightarrow> bool"
  initJobTableMetaResult :: "error + (PhysicalTable \<times> int)"
  ParseDDLJob :: "PhysicalTable option \<Rightarrow> RawKVEntry \<Rightarrow> int \<Rightarrow> error + Job option"

record DDLJobEntry =
  EntryJob :: "Job option"
  EntryOpType :: op_type
  EntryCRTs :: ts
  EntryErr :: "error option"

text \<open>\<^verbatim>\<open>ddlJobPullerImpl\<close>. \<open>outputCh\<close> is the channel as the list of entries sent so far.
  \<open>resolvedTsStores\<close> is not a field of the source: it lists, oldest first, the values
  \<^verbatim>\<open>setResolvedTs\<close> has stored, so that a statement can speak of every store.\<close>

record 'st ddlJobPullerImpl =
  schemaStorage :: "'st option"
  resolvedTs :: ts
  resolvedTsStores :: "ts list"
  ddlJobsTable :: "PhysicalTable option"
  jobMetaColumnID :: int
  outputCh :: "DDLJobEntry list"

definition getResolvedTs :: "'st ddlJobPullerImpl \<Rightarrow> ts" where
  "getResolvedTs p = resolvedTs p"

definition setResolvedTs :: "ts \<Rightarrow> 'st ddlJobPullerImpl \<Rightarrow> 'st ddlJobPullerImpl" where
  "setResolvedTs t p = p\<lparr>resolvedTs := t, resolvedTsStores := resolvedTsStores p @ [t]\<rparr>"

section \<open>DDL job puller: RenameTables\<close>

text \<open>The six slices \<^verbatim>\<open>handleRenameTables\<close> appends to.\<close>

record Remain =
  remainTables :: "TableInfo list"
  remainOldSchemaIDs :: "int list"
  remainNewSchemaIDs :: "int list"
  remainNewTableNames :: "string list"
  remainOldTableIDs :: "int list"
  remainOldSchemaNames :: "string list"

definition emptyRemain :: Remain where
  "emptyRemain =
     \<lparr>remainTables = [], remainOldSchemaIDs = [], remainNewSchemaIDs = [],
      remainNewTableNames = [], remainOldTableIDs = [], remainOldSchemaNames = []\<rparr>"

text \<open>The two flags of one child, as the loop body computes them: a table that the snapshot
  does not know, and a schema that it does not know, count as discarded.\<close>

definition shouldDiscardOldTable ::
  "'st Env \<Rightarrow> Snapshot \<Rightarrow> ActionType \<Rightarrow> TableInfo \<Rightarrow> string \<Rightarrow> bool" where
  "shouldDiscardOldTable env snap jobType tableInfo oldSchemaName =
     (case PhysicalTableByID snap (TableInfo_ID tableInfo) of
        None \<Rightarrow> True
      | Some oldTable \<Rightarrow> ShouldDiscardDDL env jobType oldSchemaName (Name_O oldTable))"

definition shouldDiscardNewTable ::
  "'st Env \<Rightarrow> Snapshot \<Rightarrow> ActionType \<Rightarrow> int \<Rightarrow> string \<Rightarrow> bool" where
  "shouldDiscardNewTable env snap jobType newSchemaID newTableName =
     (case SchemaByID snap newSchemaID of
        None \<Rightarrow> True
      | Some newSchemaName \<Rightarrow> ShouldDiscardDDL env jobType newSchemaName newTableName)"

text \<open>One child of a RenameTables job: the table info with the entries of the five decoded
  arrays at its index (table info, old schema id, new schema id, new table name, old table
  id, old schema name).\<close>

type_synonym Child = "TableInfo \<times> int \<times> int \<times> string \<times> int \<times> string"

definition children ::
  "TableInfo list \<Rightarrow> int list \<Rightarrow> int list \<Rightarrow> string list \<Rightarrow> int list \<Rightarrow> string list
   \<Rightarrow> Child list" where
  "children multiTableInfos oldSchemaIDs newSchemaIDs newTableNames oldTableIDs oldSchemaNames =
     zip multiTableInfos (zip oldSchemaIDs (zip newSchemaIDs
       (zip newTableNames (zip oldTableIDs oldSchemaNames))))"

text \<open>The loop of \<^verbatim>\<open>handleRenameTables\<close> over the children, in order; it is entered only
  when the six lengths agree, so every index is in range.\<close>

fun renameTablesLoop ::
  "'st Env \<Rightarrow> Snapshot \<Rightarrow> Job \<Rightarrow> Child list \<Rightarrow> Remain \<Rightarrow> error + Remain" where
  "renameTablesLoop env snap job [] r = Inr r"
| "renameTablesLoop env snap job
     ((tableInfo, oldSchemaID, newSchemaID, newTableName, oldTableID, oldSchemaName) # rest) r =
     (let old = shouldDiscardOldTable env snap (JobType job) tableInfo oldSchemaName;
          new = shouldDiscardNewTable env snap (JobType job) newSchemaID newTableName
      in if old \<and> new then renameTablesLoop env snap job rest r
         else if old \<and> \<not> new
           then Inl (ErrSyncRenameTableFailed (TableInfo_ID tableInfo) (Query job))
         else renameTablesLoop env snap job rest
                (r\<lparr>remainTables := remainTables r @ [tableInfo],
                   remainOldSchemaIDs := remainOldSchemaIDs r @ [oldSchemaID],
                   remainNewSchemaIDs := remainNewSchemaIDs r @ [newSchemaID],
                   remainOldTableIDs := remainOldTableIDs r @ [oldTableID],
                   remainNewTableNames := remainNewTableNames r @ [newTableName],
                   remainOldSchemaNames := remainOldSchemaNames r @ [oldSchemaName]\<rparr>))"

text \<open>\<^verbatim>\<open>handleRenameTables\<close>: the result is \<^verbatim>\<open>(skip, err)\<close> and the job, which the source
  rewrites in place. Marshalling slices of integers and of names to JSON cannot fail, so
  those error returns have no branch.\<close>

definition handleRenameTables ::
  "'st Env \<Rightarrow> 'st \<Rightarrow> Job \<Rightarrow> bool \<times> error option \<times> Job" where
  "handleRenameTables env st job =
     (case DecodeArgs job of
        Inl e \<Rightarrow> (True, Some e, job)
      | Inr (oldSchemaIDs, newSchemaIDs, newTableNames, oldTableIDs, oldSchemaNames) \<Rightarrow>
          let multiTableInfos = MultipleTableInfos (JobBinlogInfo job)
          in if length multiTableInfos \<noteq> length oldSchemaIDs
                \<or> length multiTableInfos \<noteq> length newSchemaIDs
                \<or> length multiTableInfos \<noteq> length newTableNames
                \<or> length multiTableInfos \<noteq> length oldTableIDs
                \<or> length multiTableInfos \<noteq> length oldSchemaNames
             then (True, Some (ErrInvalidDDLJob (JobID job)), job)
             else
               (case renameTablesLoop env (GetLastSnapshot env st) job
                       (children multiTableInfos oldSchemaIDs newSchemaIDs newTableNames
                          oldTableIDs oldSchemaNames) emptyRemain of
                  Inl e \<Rightarrow> (True, Some e, job)
                | Inr r \<Rightarrow>
                    if length (remainTables r) = 0 then (True, None, job)
                    else (False, None,
                          job\<lparr>JobRawArgs :=
                                 RenameTablesArgs (remainOldSchemaIDs r) (remainNewSchemaIDs r)
                                   (remainNewTableNames r) (remainOldTableIDs r)
                                   (remainOldSchemaNames r),
                              JobBinlogInfo :=
                                 (JobBinlogInfo job)\<lparr>MultipleTableInfos := remainTables r\<rparr>\<rparr>)))"












section \<open>DDL job puller: handling one job\<close>

text \<open>\<^verbatim>\<open>checkIneligibleTableDDL\<close>. It returns \<^verbatim>\<open>(skip, err)\<close>. The source reads
  \<^verbatim>\<open>job.BinlogInfo.TableInfo.ID\<close> without a nil check, and calls the schema storage
  through the interface: both panic on nil.\<close>

definition checkIneligibleTableDDL ::
  "'st Env \<Rightarrow> 'st ddlJobPullerImpl \<Rightarrow> Snapshot \<Rightarrow> Job \<Rightarrow> panic + (bool \<times> error option)" where
  "checkIneligibleTableDDL env p snapBefore job =
     (if IsSchemaDDL env (JobType job) then Inr (False, None)
      else
        (case schemaStorage p of
           None \<Rightarrow> Inl (Panic ''nil schema storage'')
         | Some st \<Rightarrow>
             let snapAfter = GetLastSnapshot env st
             in (case (if JobType job = ActionCreateTable then
                         (case BinlogTableInfo (JobBinlogInfo job) of
                            None \<Rightarrow> Inl (Panic ''nil TableInfo'')
                          | Some ti \<Rightarrow>
                              Inr (\<not> IsIneligibleTableID snapAfter (TableInfo_ID ti)))
                       else Inr False) of
                   Inl pn \<Rightarrow> Inl pn
                 | Inr True \<Rightarrow> Inr (False, None)
                 | Inr False \<Rightarrow>
                     if JobType job = ActionCreateTables then Inr (False, None)
                     else
                       (case BinlogTableInfo (JobBinlogInfo job) of
                          None \<Rightarrow> Inl (Panic ''nil TableInfo'')
                        | Some ti \<Rightarrow>
                            let oldTableID = TableID job;
                                newTableID = TableInfo_ID ti;
                                isEligibleAfter =
                                  (\<not> IsIneligibleTableID (GetLastSnapshot env st) newTableID)
                            in if isEligibleAfter then Inr (False, None)
                               else if PhysicalTableByID snapBefore oldTableID = None
                                 then Inr (True, None)
                               else if IsIneligibleTableID snapBefore oldTableID
                                 then Inr (True, None)
                               else Inr (False,
                                         Some (ErrEligibleBecameIneligible (Query job)))))))"

text \<open>The tail of \<^verbatim>\<open>handleJob\<close>, from \<^verbatim>\<open>if skip\<close> after the switch on: apply the job to the
  schema storage, store its finished timestamp, check eligibility. The result is
  \<^verbatim>\<open>(skip, err)\<close>, the job and the puller. The error log of a failed
  \<^verbatim>\<open>HandleDDLJob\<close> reads \<^verbatim>\<open>job.BinlogInfo.TableInfo.Name.O\<close>.\<close>

definition applyJob ::
  "'st Env \<Rightarrow> 'st ddlJobPullerImpl \<Rightarrow> 'st \<Rightarrow> Snapshot \<Rightarrow> bool \<Rightarrow> Job
   \<Rightarrow> panic + (bool \<times> error option \<times> Job \<times> 'st ddlJobPullerImpl)" where
  "applyJob env p st snap skip job =
     (if skip then Inr (True, None, job, p)
      else
        (case HandleDDLJob env job st of
           (Some e, st') \<Rightarrow>
             (case BinlogTableInfo (JobBinlogInfo job) of
                None \<Rightarrow> Inl (Panic ''nil TableInfo'')
              | Some _ \<Rightarrow> Inr (True, Some e, job, p\<lparr>schemaStorage := Some st'\<rparr>))
         | (None, st') \<Rightarrow>
             let p' = setResolvedTs (FinishedTS (JobBinlogInfo job))
                        (p\<lparr>schemaStorage := Some st'\<rparr>)
             in (case checkIneligibleTableDDL env p' snap job of
                   Inl pn \<Rightarrow> Inl pn
                 | Inr (skip', err) \<Rightarrow> Inr (skip', err, job, p'))))"

text \<open>The case \<^verbatim>\<open>ActionRenameTable\<close> of the switch in \<^verbatim>\<open>handleJob\<close>. Its first log line
  reads \<^verbatim>\<open>job.BinlogInfo.TableInfo.Name.O\<close>.\<close>

definition handleRenameTable ::
  "'st Env \<Rightarrow> 'st ddlJobPullerImpl \<Rightarrow> 'st \<Rightarrow> Snapshot \<Rightarrow> Job
   \<Rightarrow> panic + (bool \<times> error option \<times> Job \<times> 'st ddlJobPullerImpl)" where
  "handleRenameTable env p st snap job =
     (case BinlogTableInfo (JobBinlogInfo job) of
        None \<Rightarrow> Inl (Panic ''nil TableInfo'')
      | Some ti \<Rightarrow>
          (case PhysicalTableByID snap (TableID job) of
             None \<Rightarrow>
               let discard = ShouldDiscardDDL env (JobType job) (SchemaName job) (TableInfo_Name ti)
               in if \<not> discard
                    then Inr (True, Some (ErrSyncRenameTableFailed (TableID job) (Query job)), job, p)
                  else applyJob env p st snap True job
           | Some oldTable \<Rightarrow>
               let skipByOldTableName =
                     ShouldDiscardDDL env (JobType job) (TableName_Schema oldTable)
                       (TableName_Table oldTable);
                   skipByNewTableName =
                     ShouldDiscardDDL env (JobType job) (SchemaName job) (TableInfo_Name ti)
               in if skipByOldTableName \<and> \<not> skipByNewTableName
                    then Inr (True, Some (ErrSyncRenameTableFailed (TableID job) (Query job)), job, p)
                  else if skipByOldTableName \<and> skipByNewTableName
                    then Inr (True, None, job, p)
                  else applyJob env p st snap False job))"

text \<open>\<^verbatim>\<open>handleJob\<close>. The deferred function only logs.\<close>

definition handleJob ::
  "'st Env \<Rightarrow> 'st ddlJobPullerImpl \<Rightarrow> Job
   \<Rightarrow> panic + (bool \<times> error option \<times> Job \<times> 'st ddlJobPullerImpl)" where
  "handleJob env p job =
     (case schemaStorage p of
        None \<Rightarrow> Inr (False, None, job, p)
      | Some st \<Rightarrow>
          if FinishedTS (JobBinlogInfo job) \<le> getResolvedTs p
               \<or> SchemaVersion (JobBinlogInfo job) = 0
            then Inr (True, None, job, p)
          else
            let snap = GetLastSnapshot env st
            in (case fillSchemaName snap job of
                  (Some e, job1) \<Rightarrow>
                    if ShouldDiscardDDL env (JobType job1) (SchemaName job1) (TableName job1)
                      then Inr (True, None, job1, p)
                    else Inr (True, Some e, job1, p)
                | (None, job1) \<Rightarrow>
                    if JobType job1 = ActionRenameTables then
                      (case handleRenameTables env st job1 of
                         (skip, Some e, job2) \<Rightarrow> Inr (True, Some e, job2, p)
                       | (skip, None, job2) \<Rightarrow> applyJob env p st snap skip job2)
                    else if JobType job1 = ActionRenameTable then
                      handleRenameTable env p st snap job1
                    else
                      let job2 = (case BinlogTableInfo (JobBinlogInfo job1) of
                                    None \<Rightarrow> job1
                                  | Some ti \<Rightarrow> job1\<lparr>TableName := TableInfo_Name ti\<rparr>);
                          skip = ShouldDiscardDDL env (JobType job2) (SchemaName job2)
                                   (TableName job2)
                      in applyJob env p st snap skip job2))"



section \<open>DDL job puller: handling one raw KV entry\<close>

text \<open>\<^verbatim>\<open>unmarshalDDL\<close>, with \<^verbatim>\<open>initJobTableMeta\<close> storing what it found.\<close>

definition unmarshalDDL ::
  "'st Env \<Rightarrow> 'st ddlJobPullerImpl \<Rightarrow> RawKVEntry
   \<Rightarrow> (error + Job option) \<times> 'st ddlJobPullerImpl" where
  "unmarshalDDL env p rawKV =
     (if OpType rawKV \<noteq> OpTypePut then (Inr None, p)
      else if ddlJobsTable p = None \<and> \<not> IsLegacyFormatJob env rawKV then
        (case initJobTableMetaResult env of
           Inl e \<Rightarrow> (Inl e, p)
         | Inr (tbl, col) \<Rightarrow>
             let p' = p\<lparr>ddlJobsTable := Some tbl, jobMetaColumnID := col\<rparr>
             in (ParseDDLJob env (ddlJobsTable p') rawKV (jobMetaColumnID p'), p'))
      else (ParseDDLJob env (ddlJobsTable p) rawKV (jobMetaColumnID p), p))"

text \<open>The \<^verbatim>\<open>select\<close> that ends \<^verbatim>\<open>handleRawKVEntry\<close>: \<open>ctxDone\<close> says that the context
  branch was taken, otherwise the entry goes to the output channel.\<close>

definition sendEntry ::
  "bool \<Rightarrow> 'st ddlJobPullerImpl \<Rightarrow> DDLJobEntry \<Rightarrow> error option \<times> 'st ddlJobPullerImpl" where
  "sendEntry ctxDone p jobEntry =
     (if ctxDone then (Some ContextCanceled, p)
      else (None, p\<lparr>outputCh := outputCh p @ [jobEntry]\<rparr>))"

text \<open>\<^verbatim>\<open>handleRawKVEntry\<close>: the error it returns, or nil, and the puller.\<close>

definition handleRawKVEntry ::
  "'st Env \<Rightarrow> bool \<Rightarrow> 'st ddlJobPullerImpl \<Rightarrow> RawKVEntry option
   \<Rightarrow> panic + (error option \<times> 'st ddlJobPullerImpl)" where
  "handleRawKVEntry env ctxDone p ddlRawKV =
     (case ddlRawKV of
        None \<Rightarrow> Inr (None, p)
      | Some raw \<Rightarrow>
          let p1 =
                (if OpType raw = OpTypeResolved then
                   let p0 = (case schemaStorage p of
                               None \<Rightarrow> p
                             | Some st \<Rightarrow>
                                 p\<lparr>schemaStorage := Some (AdvanceResolvedTs env (CRTs raw) st)\<rparr>)
                   in if CRTs raw > getResolvedTs p0 then setResolvedTs (CRTs raw) p0 else p0
                 else p)
          in (case unmarshalDDL env p1 raw of
                (Inl e, p2) \<Rightarrow> Inr (Some e, p2)
              | (Inr None, p2) \<Rightarrow>
                  Inr (sendEntry ctxDone p2
                         \<lparr>EntryJob = None, EntryOpType = OpType raw, EntryCRTs = CRTs raw,
                          EntryErr = None\<rparr>)
              | (Inr (Some job), p2) \<Rightarrow>
                  (case handleJob env p2 job of
                     Inl pn \<Rightarrow> Inl pn
                   | Inr (skip, Some e, job', p3) \<Rightarrow> Inr (Some e, p3)
                   | Inr (skip, None, job', p3) \<Rightarrow>
                       if skip then Inr (None, p3)
                       else Inr (sendEntry ctxDone p3
                                   \<lparr>EntryJob = Some job', EntryOpType = OpType raw,
                                    EntryCRTs = CRTs raw, EntryErr = None\<rparr>))))"

text \<open>The loop of \<^verbatim>\<open>run\<close> and of \<^verbatim>\<open>runMultiplexing\<close> over the entries the sorter hands
  over: it stops at the first error. Each entry comes with the state of the context at its
  \<^verbatim>\<open>select\<close>.\<close>

fun runEntries ::
  "'st Env \<Rightarrow> 'st ddlJobPullerImpl \<Rightarrow> (bool \<times> RawKVEntry option) list
   \<Rightarrow> panic + (error option \<times> 'st ddlJobPullerImpl)" where
  "runEntries env p [] = Inr (None, p)"
| "runEntries env p ((ctxDone, raw) # rest) =
     (case handleRawKVEntry env ctxDone p raw of
        Inl pn \<Rightarrow> Inl pn
      | Inr (Some e, p') \<Rightarrow> Inr (Some e, p')
      | Inr (None, p') \<Rightarrow> runEntries env p' rest)"

section \<open>DDL puller of the owner\<close>

text \<open>\<^verbatim>\<open>ddlPullerImpl\<close>. \<open>resolvedTSStores\<close> is not a field of the source: it lists, oldest
  first, the values stored into \<^verbatim>\<open>resolvedTS\<close>. The clock reading is a number.\<close>

record ddlPullerImpl =
  resolvedTS :: ts
  resolvedTSStores :: "ts list"
  pendingDDLJobs :: "Job list"
  lastDDLJobID :: int
  lastResolvedTsAdvancedTime :: nat

text \<open>\<^verbatim>\<open>handleDDLJobEntry\<close>; \<open>now\<close> is what \<^verbatim>\<open>h.clock.Now()\<close> returns.\<close>

definition handleDDLJobEntry ::
  "nat \<Rightarrow> ddlPullerImpl \<Rightarrow> DDLJobEntry \<Rightarrow> error option \<times> ddlPullerImpl" where
  "handleDDLJobEntry now h jobEntry =
     (if EntryOpType jobEntry = OpTypeResolved then
        (if EntryCRTs jobEntry > resolvedTS h
           then (None, h\<lparr>lastResolvedTsAdvancedTime := now,
                         resolvedTS := EntryCRTs jobEntry,
                         resolvedTSStores := resolvedTSStores h @ [EntryCRTs jobEntry]\<rparr>)
         else (None, h))
      else
        (case EntryErr jobEntry of
           Some err \<Rightarrow> (Some err, h)
         | None \<Rightarrow>
             (case EntryJob jobEntry of
                None \<Rightarrow> (None, h)
              | Some job \<Rightarrow>
                  if JobID job = lastDDLJobID h then (None, h)
                  else (None, h\<lparr>pendingDDLJobs := pendingDDLJobs h @ [job],
                                lastDDLJobID := JobID job\<rparr>))))"

text \<open>The consumer loop of \<^verbatim>\<open>ddlPullerImpl.Run\<close> over the entries of the output channel,
  each with the clock reading at its arrival; it stops at the first error.\<close>

fun runJobEntries ::
  "ddlPullerImpl \<Rightarrow> (nat \<times> DDLJobEntry) list \<Rightarrow> error option \<times> ddlPullerImpl" where
  "runJobEntries h [] = (None, h)"
| "runJobEntries h ((now, e) # rest) =
     (case handleDDLJobEntry now h e of
        (Some err, h') \<Rightarrow> (Some err, h')
      | (None, h') \<Rightarrow> runJobEntries h' rest)"

section \<open>A concrete puller\<close>

text \<open>A schema with the databases \<^verbatim>\<open>test\<close> (id 10) and \<^verbatim>\<open>other\<close> (id 20), four tables, of
  which table 3 has no unique not-null key, and a filter that replicates \<^verbatim>\<open>test\<close> only. The
  schema storage is its last snapshot; applying a job leaves it as it is.\<close>

definition demoSnapshot :: Snapshot where
  "demoSnapshot =
     \<lparr>PhysicalTableByID =
        (\<lambda>i. if i = 1 then Some \<lparr>TableName_Schema = ''test'', TableName_Table = ''a'', Name_O = ''a''\<rparr>
             else if i = 2 then Some \<lparr>TableName_Schema = ''other'', TableName_Table = ''b'', Name_O = ''b''\<rparr>
             else if i = 3 then Some \<lparr>TableName_Schema = ''test'', TableName_Table = ''d'', Name_O = ''d''\<rparr>
             else if i = 4 then Some \<lparr>TableName_Schema = ''test'', TableName_Table = ''c'', Name_O = ''c''\<rparr>
             else None),
      SchemaByID = (\<lambda>i. if i = 10 then Some ''test'' else if i = 20 then Some ''other'' else None),
      IsIneligibleTableID = (\<lambda>i. i = 3),
      FillSchemaName =
        (\<lambda>job. if SchemaID job = 10 then (None, ''test'', TableName job)
               else if SchemaID job = 20 then (None, ''other'', TableName job)
               else (Some (ErrExternal ''schema not found''), SchemaName job, TableName job))\<rparr>"


definition demoJob :: "ActionType \<Rightarrow> int \<Rightarrow> int \<Rightarrow> TableInfo \<Rightarrow> ts \<Rightarrow> Job" where
  "demoJob jobType schemaID tableID tableInfo finishedTS =
     \<lparr>JobID = 7, JobType = jobType, SchemaID = schemaID, TableID = tableID,
      SchemaName = [], TableName = [], Query = ''ddl'',
      JobBinlogInfo =
        \<lparr>FinishedTS = finishedTS, SchemaVersion = 1, BinlogTableInfo = Some tableInfo,
         MultipleTableInfos = []\<rparr>,
      JobRawArgs = OtherArgs ''[]''\<rparr>"

definition demoEnv :: "Snapshot Env" where
  "demoEnv =
     \<lparr>ShouldDiscardDDL = (\<lambda>jobType schema table. schema \<noteq> ''test''),
      IsSchemaDDL = (\<lambda>t. t = ActionCreateSchema \<or> t = ActionDropSchema),
      AdvanceResolvedTs = (\<lambda>t st. st),
      GetLastSnapshot = (\<lambda>st. st),
      HandleDDLJob = (\<lambda>job st. (None, st)),
      IsLegacyFormatJob = (\<lambda>raw. True),
      initJobTableMetaResult = Inl (ErrExternal ''no KV store''),
      ParseDDLJob =
        (\<lambda>tbl raw col.
           Inr (Some (demoJob (ActionOther 0) 10 1 \<lparr>TableInfo_ID = 1, TableInfo_Name = ''a''\<rparr>
                        (CRTs raw))))\<rparr>"

definition demoPuller :: "Snapshot ddlJobPullerImpl" where
  "demoPuller =
     \<lparr>schemaStorage = Some demoSnapshot, resolvedTs = 0, resolvedTsStores = [],
      ddlJobsTable = None, jobMetaColumnID = 0, outputCh = []\<rparr>"

definition demoRaw :: "op_type \<Rightarrow> ts \<Rightarrow> RawKVEntry" where
  "demoRaw opType commitTs =
     \<lparr>OpType = opType, Key = ''k'', Value = Some ''v'', OldValue = None, StartTs = 0,
      CRTs = commitTs\<rparr>"







definition demoEntries :: "(bool \<times> RawKVEntry option) list" where
  "demoEntries =
     [(False, Some (demoRaw OpTypeResolved 5)), (False, Some (demoRaw OpTypePut 10)),
      (False, Some (demoRaw OpTypeResolved 7)), (False, Some (demoRaw OpTypePut 8)),
      (False, Some (demoRaw OpTypeResolved 12))]"

definition demoOwner :: ddlPullerImpl where
  "demoOwner =
     \<lparr>resolvedTS = 3, resolvedTSStores = [], pendingDDLJobs = [], lastDDLJobID = 0,
      lastResolvedTsAdvancedTime = 0\<rparr>"

definition resolvedEntry :: "ts \<Rightarrow> DDLJobEntry" where
  "resolvedEntry t = \<lparr>EntryJob = None, EntryOpType = OpTypeResolved, EntryCRTs = t, EntryErr = None\<rparr>"

definition jobEntry :: "Job \<Rightarrow> DDLJobEntry" where
  "jobEntry job =
     \<lparr>EntryJob = Some job, EntryOpType = OpTypePut, EntryCRTs = FinishedTS (JobBinlogInfo job),
      EntryErr = None\<rparr>"

section \<open>MySQL sink backend: data\<close>

text \<open>The transactional MySQL backend (\<^verbatim>\<open>package mysql\<close>: \<^verbatim>\<open>OnTxnEvent\<close>, \<^verbatim>\<open>Flush\<close>,
  \<^verbatim>\<open>prepareDMLs\<close>, \<^verbatim>\<open>execDMLWithMaxRetries\<close>). A column value is an \<^verbatim>\<open>interface{}\<close>: the
  constructors are the kinds the code tells apart.\<close>

datatype datum = DBytes string | DString string | DInt int | DNull

record Column =
  ColName :: string
  ColCharset :: string
  ColValue :: datum
  ColIsHandleKey :: bool

text \<open>\<^verbatim>\<open>model.RowChangedEvent\<close>: a column slot may be nil; the table is schema and name; the
  sizes and counts are Go \<^verbatim>\<open>int\<close> and \<^verbatim>\<open>int64\<close>, which count rows and bytes held in memory
  and stay far from their bounds, so they are integers.\<close>

record RowChangedEvent =
  RowStartTs :: ts
  CommitTs :: ts
  ReplicatingTs :: ts
  RowTable :: "string \<times> string"
  PreColumns :: "Column option list"
  Columns :: "Column option list"
  IndexColumns :: "int list list"
  ApproximateDataSize :: int




text \<open>\<^verbatim>\<open>eventsink.TxnCallbackableEvent\<close>: the rows of the transaction, what
  \<^verbatim>\<open>Event.ToWaitFlush()\<close> answers, and the callback, a number that names it, or nil.\<close>

record TxnCallbackableEvent =
  Rows :: "RowChangedEvent list"
  ToWaitFlush :: bool
  Callback :: "nat option"

record Config =
  MaxTxnRow :: int
  MaxMultiUpdateRowCount :: int
  MaxMultiUpdateRowSize :: int
  BatchReplaceEnabled :: bool
  BatchReplaceSize :: int
  BatchDMLEnable :: bool
  MultiStmtEnable :: bool
  SafeMode :: bool
  EnableOldValue :: bool
  ForceReplicate :: bool
  IsTiDB :: bool
  IsWriteSourceExisted :: bool

text \<open>\<^verbatim>\<open>mysqlBackend\<close>. \<open>invoked\<close> is not a field of the source: it lists, oldest first, the
  callbacks that have been called. Statistics and metrics are left out.\<close>

record mysqlBackend =
  cfg :: Config
  dmlMaxRetry :: nat
  events :: "TxnCallbackableEvent list"
  rows :: int
  maxAllowedPacket :: int
  invoked :: "nat list"

text \<open>\<^verbatim>\<open>OnTxnEvent\<close>: \<^verbatim>\<open>needFlush\<close> and the backend.\<close>

definition OnTxnEvent :: "mysqlBackend \<Rightarrow> TxnCallbackableEvent \<Rightarrow> bool \<times> mysqlBackend" where
  "OnTxnEvent s event =
     (let s1 = s\<lparr>events := events s @ [event]\<rparr>;
          s2 = s1\<lparr>rows := rows s1 + int (length (Rows event))\<rparr>
      in (ToWaitFlush event \<or> rows s2 \<ge> MaxTxnRow (cfg s2), s2))"

section \<open>MySQL sink backend: preparing the DMLs\<close>

text \<open>A statement is its SQL text and its arguments. \<^verbatim>\<open>sqlmodel.RowChange\<close> is what
  \<^verbatim>\<open>sqlmodel.NewRowChange\<close> was given; the table info is what
  \<^verbatim>\<open>model.BuildTiDBTableInfo\<close> was given.\<close>

type_synonym args = "datum list"


datatype DMLType = DMLInsert | DMLReplace | DMLUpdate | DMLDelete















text \<open>The local variables of \<^verbatim>\<open>prepareDMLs\<close> that its loop over the events updates.\<close>

record PrepareState =
  ps_startTs :: "ts list"
  ps_sqls :: "string list"
  ps_values :: "args list"
  ps_callbacks :: "nat list"
  ps_replaces :: "(string \<times> args list) list"
  ps_translateToInsert :: bool
  ps_rowCount :: int
  ps_approximateSize :: int











section \<open>MySQL sink backend: executing the DMLs\<close>

text \<open>An error of the sink is a root cause with wrappers around it, and \<^verbatim>\<open>errors.Cause\<close>
  finds the root. A root cause is a \<^verbatim>\<open>*MySQLError\<close> with its number, or another error.\<close>

datatype cause =
    MySQLError nat
  | CauseContextCanceled
  | CauseBadConn
  | CauseOther string

datatype rfc = ErrMySQLTxnError | ErrMySQLDuplicateEntry | ErrReachMaxTry

datatype sink_error =
    Raw cause
  | WrapError rfc sink_error
  | WithMessage sink_error string

fun Cause :: "sink_error \<Rightarrow> cause" where
  "Cause (Raw c) = c"
| "Cause (WrapError r e) = Cause e"
| "Cause (WithMessage e m) = Cause e"

text \<open>The MySQL error numbers the backend names.\<close>

definition ErrDupEntry :: nat where "ErrDupEntry = 1062"

text \<open>\<^verbatim>\<open>getSQLErrCode\<close>: the code, or \<open>None\<close> where the source returns \<^verbatim>\<open>(-1, false)\<close>.\<close>

definition getSQLErrCode :: "sink_error \<Rightarrow> nat option" where
  "getSQLErrCode err = (case Cause err of MySQLError n \<Rightarrow> Some n | _ \<Rightarrow> None)"


text \<open>\<^verbatim>\<open>wrapMysqlTxnError\<close>.\<close>

definition wrapMysqlTxnError :: "sink_error \<Rightarrow> sink_error" where
  "wrapMysqlTxnError err =
     (case getSQLErrCode err of
        None \<Rightarrow> WrapError ErrMySQLTxnError err
      | Some errCode \<Rightarrow>
          if errCode = ErrDupEntry then WrapError ErrMySQLDuplicateEntry err
          else WrapError ErrMySQLTxnError err)"

text \<open>\<^verbatim>\<open>logDMLTxnErr\<close>, without its log lines: the query is cut at 1024 bytes.\<close>

definition logDMLTxnErr :: "sink_error \<Rightarrow> string \<Rightarrow> sink_error" where
  "logDMLTxnErr err query =
     (let query' = (if length query > 1024 then take 1024 query else query)
      in WithMessage err (''Failed query info: '' @ query' @ ''; ''))"











section \<open>A concrete backend\<close>











text \<open>Statements and values are appended together.\<close>

definition lockstep :: "PrepareState \<Rightarrow> bool" where
  "lockstep st = (length (ps_sqls st) = length (ps_values st))"






section \<open>Properties of the split-update predicate\<close>

text \<open>Claim C6. The split predicate built in \<^verbatim>\<open>AddTable\<close> returns false for a nil entry and
  for an entry that is not an UPDATE, whatever the mode; for an UPDATE it returns false in
  mode None, true in mode Always, and in mode AtStart it returns true exactly when the
  commit timestamp of the entry is strictly below the replicating timestamp of the table.\<close>

theorem shouldSplitKVEntry_policy:
  "(raw = None \<or> (\<exists>r. raw = Some r \<and> \<not> IsUpdate r)
      \<longrightarrow> shouldSplitKVEntry IsUpdate mode replicaTs raw = Inr False)
   \<and> (\<forall>r. raw = Some r \<and> IsUpdate r \<longrightarrow>
         shouldSplitKVEntry IsUpdate PullerSplitUpdateModeNone replicaTs raw = Inr False
       \<and> shouldSplitKVEntry IsUpdate PullerSplitUpdateModeAlways replicaTs raw = Inr True
       \<and> shouldSplitKVEntry IsUpdate PullerSplitUpdateModeAtStart replicaTs raw
           = Inr (CRTs r < replicaTs))"
  by (auto simp: shouldSplitKVEntry_def isOldUpdateKVEntry_def PullerSplitUpdateModeNone_def
      PullerSplitUpdateModeAlways_def PullerSplitUpdateModeAtStart_def)

theorem shouldSplitKVEntry_policy_witness:
  "putWithOldValue (updateAt 50)
   \<and> shouldSplitKVEntry putWithOldValue PullerSplitUpdateModeNone 100 (Some (updateAt 50)) = Inr False
   \<and> shouldSplitKVEntry putWithOldValue PullerSplitUpdateModeAlways 100 (Some (updateAt 50)) = Inr True
   \<and> shouldSplitKVEntry putWithOldValue PullerSplitUpdateModeAtStart 100 (Some (updateAt 50)) = Inr True"
proof -
  have u: "putWithOldValue (updateAt 50)"
    by (simp add: putWithOldValue_def updateAt_def)
  have c: "CRTs (updateAt 50) < (100 :: ts)"
    by (simp add: updateAt_def)
  from shouldSplitKVEntry_policy [of "Some (updateAt 50)" putWithOldValue PullerSplitUpdateModeNone 100]
  have "shouldSplitKVEntry putWithOldValue PullerSplitUpdateModeNone 100 (Some (updateAt 50)) = Inr False
      \<and> shouldSplitKVEntry putWithOldValue PullerSplitUpdateModeAlways 100 (Some (updateAt 50)) = Inr True
      \<and> shouldSplitKVEntry putWithOldValue PullerSplitUpdateModeAtStart 100 (Some (updateAt 50))
          = Inr (CRTs (updateAt 50) < 100)"
    using u by blast
  with u c show ?thesis by simp
qed

section \<open>Properties of the DDL job puller\<close>



subsection \<open>The loop over the children of a RenameTables job\<close>







subsection \<open>From the raw entry to the switch on the job type\<close>

lemma unmarshalDDL_frame:
  "unmarshalDDL env p raw = (r, p2) \<Longrightarrow>
     schemaStorage p2 = schemaStorage p \<and> resolvedTs p2 = resolvedTs p
     \<and> resolvedTsStores p2 = resolvedTsStores p \<and> outputCh p2 = outputCh p"
  by (auto simp: unmarshalDDL_def Let_def split: if_splits sum.splits prod.splits)

lemma unmarshalDDL_job_is_put:
  "unmarshalDDL env p raw = (Inr (Some job), p2) \<Longrightarrow> OpType raw = OpTypePut"
  by (auto simp: unmarshalDDL_def split: if_splits)

lemma handleJob_skip:
  "schemaStorage p = Some st \<Longrightarrow>
   FinishedTS (JobBinlogInfo job) \<le> resolvedTs p \<or> SchemaVersion (JobBinlogInfo job) = 0 \<Longrightarrow>
   handleJob env p job = Inr (True, None, job, p)"
  by (auto simp: handleJob_def getResolvedTs_def)





subsection \<open>RenameTables: what is emitted\<close>




subsection \<open>The filter rules of a rename\<close>



subsection \<open>Eligibility after a DDL\<close>




subsection \<open>The resolved timestamp\<close>

lemma applyJob_stores:
  "applyJob env p st snap skip job = Inr (s, e, j, p') \<Longrightarrow>
   resolvedTs p < FinishedTS (JobBinlogInfo job) \<Longrightarrow>
     (resolvedTsStores p' = resolvedTsStores p \<and> resolvedTs p' = resolvedTs p)
   \<or> (resolvedTsStores p' = resolvedTsStores p @ [resolvedTs p'] \<and> resolvedTs p < resolvedTs p')"
  by (auto simp: applyJob_def setResolvedTs_def Let_def split: if_splits prod.splits option.splits sum.splits)

lemma fillSchemaName_binlog:
  "fillSchemaName snap job = (e, job1) \<Longrightarrow> JobBinlogInfo job1 = JobBinlogInfo job \<and> Query job1 = Query job \<and> JobID job1 = JobID job"
  by (auto simp: fillSchemaName_def split: prod.splits)

lemma handleRenameTables_finished:
  "handleRenameTables env st job = (s, e, j) \<Longrightarrow> FinishedTS (JobBinlogInfo j) = FinishedTS (JobBinlogInfo job)"
  by (auto simp: handleRenameTables_def Let_def split: sum.splits if_splits prod.splits)

lemma handleRenameTable_stores:
  "handleRenameTable env p st snap job = Inr (s, e, j, p') \<Longrightarrow>
   resolvedTs p < FinishedTS (JobBinlogInfo job) \<Longrightarrow>
     (resolvedTsStores p' = resolvedTsStores p \<and> resolvedTs p' = resolvedTs p)
   \<or> (resolvedTsStores p' = resolvedTsStores p @ [resolvedTs p'] \<and> resolvedTs p < resolvedTs p')"
  by (auto simp: handleRenameTable_def Let_def split: option.splits if_splits dest: applyJob_stores)

lemma handleJob_stores:
  assumes h: "handleJob env p job = Inr (s, e, j, p')"
  shows "(resolvedTsStores p' = resolvedTsStores p \<and> resolvedTs p' = resolvedTs p)
   \<or> (resolvedTsStores p' = resolvedTsStores p @ [resolvedTs p'] \<and> resolvedTs p < resolvedTs p')"
proof (cases "schemaStorage p")
  case None
  with h show ?thesis by (simp add: handleJob_def)
next
  case (Some st)
  show ?thesis
  proof (cases "FinishedTS (JobBinlogInfo job) \<le> resolvedTs p \<or> SchemaVersion (JobBinlogInfo job) = 0")
    case True
    with h Some show ?thesis by (auto simp: handleJob_def getResolvedTs_def)
  next
    case False
    then have lt: "resolvedTs p < FinishedTS (JobBinlogInfo job)" by auto
    obtain e1 job1 where f: "fillSchemaName (GetLastSnapshot env st) job = (e1, job1)"
      by (cases "fillSchemaName (GetLastSnapshot env st) job")
    from fillSchemaName_binlog [OF f] lt
    have lt1: "resolvedTs p < FinishedTS (JobBinlogInfo job1)" by simp
    show ?thesis
    proof (cases e1)
      case (Some err)
      with h \<open>schemaStorage p = Some st\<close> False f show ?thesis
        by (auto simp: handleJob_def getResolvedTs_def split: if_splits)
    next
      case None
      note e1 = this
      show ?thesis
      proof (cases "JobType job1 = ActionRenameTables")
        case True
        obtain s2 e2 job2 where r: "handleRenameTables env st job1 = (s2, e2, job2)"
          by (cases "handleRenameTables env st job1")
        from handleRenameTables_finished [OF r] lt1
        have lt2: "resolvedTs p < FinishedTS (JobBinlogInfo job2)" by simp
        from h \<open>schemaStorage p = Some st\<close> False f e1 True r show ?thesis
          by (auto simp: handleJob_def getResolvedTs_def split: option.splits dest: applyJob_stores [OF _ lt2])
      next
        case False
        note nrt = this
        show ?thesis
        proof (cases "JobType job1 = ActionRenameTable")
          case True
          with h \<open>schemaStorage p = Some st\<close> \<open>\<not> (FinishedTS (JobBinlogInfo job) \<le> resolvedTs p \<or> SchemaVersion (JobBinlogInfo job) = 0)\<close> f e1 nrt
          have "handleRenameTable env p st (GetLastSnapshot env st) job1 = Inr (s, e, j, p')"
            by (simp add: handleJob_def getResolvedTs_def)
          from handleRenameTable_stores [OF this lt1] show ?thesis .
        next
          case False
          define job2 where "job2 = (case BinlogTableInfo (JobBinlogInfo job1) of
                                    None \<Rightarrow> job1
                                  | Some ti \<Rightarrow> job1\<lparr>TableName := TableInfo_Name ti\<rparr>)"
          have lt2: "resolvedTs p < FinishedTS (JobBinlogInfo job2)"
            using lt1 by (simp add: job2_def split: option.splits)
          from h \<open>schemaStorage p = Some st\<close> \<open>\<not> (FinishedTS (JobBinlogInfo job) \<le> resolvedTs p \<or> SchemaVersion (JobBinlogInfo job) = 0)\<close> f e1 nrt False
          have "applyJob env p st (GetLastSnapshot env st)
                  (ShouldDiscardDDL env (JobType job2) (SchemaName job2) (TableName job2)) job2 = Inr (s, e, j, p')"
            by (simp add: handleJob_def getResolvedTs_def job2_def Let_def)
          from applyJob_stores [OF this lt2] show ?thesis .
        qed
      qed
    qed
  qed
qed

lemma handleRawKVEntry_stores:
  assumes h: "handleRawKVEntry env c p raw = Inr (e, p')"
  shows "(resolvedTsStores p' = resolvedTsStores p \<and> resolvedTs p' = resolvedTs p)
   \<or> (resolvedTsStores p' = resolvedTsStores p @ [resolvedTs p'] \<and> resolvedTs p < resolvedTs p')"
proof (cases raw)
  case None
  with h show ?thesis by (simp add: handleRawKVEntry_def)
next
  case (Some r)
  define p1 where "p1 = (if OpType r = OpTypeResolved then
                   let p0 = (case schemaStorage p of
                               None \<Rightarrow> p
                             | Some st \<Rightarrow>
                                 p\<lparr>schemaStorage := Some (AdvanceResolvedTs env (CRTs r) st)\<rparr>)
                   in if CRTs r > getResolvedTs p0 then setResolvedTs (CRTs r) p0 else p0
                 else p)"
  obtain u p2 where u: "unmarshalDDL env p1 r = (u, p2)" by (cases "unmarshalDDL env p1 r")
  note fr = unmarshalDDL_frame [OF u]
  show ?thesis
  proof (cases "OpType r = OpTypeResolved")
    case True
    then have un: "u = Inr None" "p2 = p1" using u by (auto simp: unmarshalDDL_def)
    have p1': "(resolvedTsStores p1 = resolvedTsStores p \<and> resolvedTs p1 = resolvedTs p)
       \<or> (resolvedTsStores p1 = resolvedTsStores p @ [resolvedTs p1] \<and> resolvedTs p < resolvedTs p1)"
      using True by (auto simp: p1_def Let_def getResolvedTs_def setResolvedTs_def split: option.splits)
    have "resolvedTsStores p' = resolvedTsStores p1 \<and> resolvedTs p' = resolvedTs p1"
      using h Some u un by (auto simp: handleRawKVEntry_def p1_def [symmetric] sendEntry_def split: if_splits)
    with p1' show ?thesis by simp
  next
    case False
    then have p1: "p1 = p" by (simp add: p1_def)
    show ?thesis
    proof (cases u)
      case (Inl err)
      with h Some u p1 fr show ?thesis
        by (auto simp: handleRawKVEntry_def p1_def [symmetric])
    next
      case (Inr jo)
      show ?thesis
      proof (cases jo)
        case None
        with h Some u p1 fr Inr show ?thesis
          by (auto simp: handleRawKVEntry_def p1_def [symmetric] sendEntry_def split: if_splits)
      next
        case (Some job)
        with h \<open>raw = Some r\<close> u Inr
        obtain s e3 j3 p3 where hj: "handleJob env p2 job = Inr (s, e3, j3, p3)"
          and p3: "resolvedTsStores p' = resolvedTsStores p3 \<and> resolvedTs p' = resolvedTs p3"
          by (auto simp: handleRawKVEntry_def p1_def [symmetric] sendEntry_def split: if_splits sum.splits option.splits)
        from handleJob_stores [OF hj] p3 fr p1 show ?thesis by simp
      qed
    qed
  qed
qed

lemma sorted_wrt_less_snoc:
  "sorted_wrt (<) ((a :: ts) # xs) \<Longrightarrow> last (a # xs) < b \<Longrightarrow> sorted_wrt (<) (a # xs @ [b])"
proof (induction xs arbitrary: a)
  case Nil
  then show ?case by simp
next
  case (Cons x xs)
  from Cons.prems have "sorted_wrt (<) (x # xs)" "last (x # xs) < b" "a < x" by auto
  from Cons.IH [OF this(1,2)] have s: "sorted_wrt (<) (x # xs @ [b])" .
  then have "\<forall>y \<in> set (xs @ [b]). x < y" by simp
  with \<open>a < x\<close> have "\<forall>y \<in> set (x # xs @ [b]). a < y" by auto
  with s show ?case by simp
qed

lemma stores_extend:
  assumes "sorted_wrt (<) ((a :: ts) # xs)" "sorted_wrt (<) (last (a # xs) # ys)"
  shows "sorted_wrt (<) (a # xs @ ys) \<and> last (a # xs @ ys) = last (last (a # xs) # ys)"
  using assms
proof (induction ys arbitrary: xs)
  case Nil
  then show ?case by simp
next
  case (Cons y ys)
  from Cons.prems have lt: "last (a # xs) < y" and ys: "sorted_wrt (<) (y # ys)" by auto
  have s1: "sorted_wrt (<) (a # (xs @ [y]))" using sorted_wrt_less_snoc [OF Cons.prems(1) lt] by simp
  have s2: "sorted_wrt (<) (last (a # xs @ [y]) # ys)" using ys by simp
  from Cons.IH [OF s1 s2] show ?case by simp
qed

lemma runEntries_stores:
  "runEntries env p es = Inr (e, p') \<Longrightarrow>
   \<exists>new. resolvedTsStores p' = resolvedTsStores p @ new
        \<and> sorted_wrt (<) (resolvedTs p # new) \<and> resolvedTs p' = last (resolvedTs p # new)"
proof (induction es arbitrary: p)
  case Nil
  then show ?case by simp
next
  case (Cons a es)
  obtain c raw where a: "a = (c, raw)" by (cases a)
  from Cons.prems a obtain e1 p1 where s: "handleRawKVEntry env c p raw = Inr (e1, p1)"
    by (auto split: sum.splits)
  from handleRawKVEntry_stores [OF s]
  have step: "\<exists>n1. resolvedTsStores p1 = resolvedTsStores p @ n1
        \<and> sorted_wrt (<) (resolvedTs p # n1) \<and> resolvedTs p1 = last (resolvedTs p # n1)"
  proof
    assume "resolvedTsStores p1 = resolvedTsStores p \<and> resolvedTs p1 = resolvedTs p"
    then show ?thesis by (intro exI [of _ "[]"]) simp
  next
    assume "resolvedTsStores p1 = resolvedTsStores p @ [resolvedTs p1] \<and> resolvedTs p < resolvedTs p1"
    then show ?thesis by (intro exI [of _ "[resolvedTs p1]"]) simp
  qed
  then obtain n1 where n1: "resolvedTsStores p1 = resolvedTsStores p @ n1"
    "sorted_wrt (<) (resolvedTs p # n1)" "resolvedTs p1 = last (resolvedTs p # n1)" by blast
  show ?case
  proof (cases e1)
    case (Some err)
    with Cons.prems a s have "p' = p1" by simp
    with n1 show ?thesis by blast
  next
    case None
    with Cons.prems a s have "runEntries env p1 es = Inr (e, p')" by simp
    from Cons.IH [OF this] obtain n2 where n2: "resolvedTsStores p' = resolvedTsStores p1 @ n2"
      "sorted_wrt (<) (resolvedTs p1 # n2)" "resolvedTs p' = last (resolvedTs p1 # n2)" by blast
    from stores_extend [of "resolvedTs p" n1 n2] n1 n2
    have "sorted_wrt (<) (resolvedTs p # n1 @ n2) \<and> resolvedTs p' = last (resolvedTs p # n1 @ n2)"
      by simp
    with n1 n2 show ?thesis by (intro exI [of _ "n1 @ n2"]) simp
  qed
qed

lemma handleDDLJobEntry_stores:
  "handleDDLJobEntry now h e = (r, h') \<Longrightarrow>
     (resolvedTSStores h' = resolvedTSStores h \<and> resolvedTS h' = resolvedTS h)
   \<or> (resolvedTSStores h' = resolvedTSStores h @ [resolvedTS h'] \<and> resolvedTS h < resolvedTS h')"
  by (auto simp: handleDDLJobEntry_def split: if_splits option.splits)

lemma runJobEntries_stores:
  "runJobEntries h es = (e, h') \<Longrightarrow>
   \<exists>new. resolvedTSStores h' = resolvedTSStores h @ new
        \<and> sorted_wrt (<) (resolvedTS h # new) \<and> resolvedTS h' = last (resolvedTS h # new)"
proof (induction es arbitrary: h)
  case Nil
  then show ?case by simp
next
  case (Cons a es)
  obtain now je where a: "a = (now, je)" by (cases a)
  obtain e1 h1 where s: "handleDDLJobEntry now h je = (e1, h1)" by (cases "handleDDLJobEntry now h je")
  from handleDDLJobEntry_stores [OF s]
  have step: "\<exists>n1. resolvedTSStores h1 = resolvedTSStores h @ n1
        \<and> sorted_wrt (<) (resolvedTS h # n1) \<and> resolvedTS h1 = last (resolvedTS h # n1)"
  proof
    assume "resolvedTSStores h1 = resolvedTSStores h \<and> resolvedTS h1 = resolvedTS h"
    then show ?thesis by (intro exI [of _ "[]"]) simp
  next
    assume "resolvedTSStores h1 = resolvedTSStores h @ [resolvedTS h1] \<and> resolvedTS h < resolvedTS h1"
    then show ?thesis by (intro exI [of _ "[resolvedTS h1]"]) simp
  qed
  then obtain n1 where n1: "resolvedTSStores h1 = resolvedTSStores h @ n1"
    "sorted_wrt (<) (resolvedTS h # n1)" "resolvedTS h1 = last (resolvedTS h # n1)" by blast
  show ?case
  proof (cases e1)
    case (Some err)
    with Cons.prems a s have "h' = h1" by simp
    with n1 show ?thesis by blast
  next
    case None
    with Cons.prems a s have "runJobEntries h1 es = (e, h')" by simp
    from Cons.IH [OF this] obtain n2 where n2: "resolvedTSStores h' = resolvedTSStores h1 @ n2"
      "sorted_wrt (<) (resolvedTS h1 # n2)" "resolvedTS h' = last (resolvedTS h1 # n2)" by blast
    from stores_extend [of "resolvedTS h" n1 n2] n1 n2
    have "sorted_wrt (<) (resolvedTS h # n1 @ n2) \<and> resolvedTS h' = last (resolvedTS h # n1 @ n2)"
      by simp
    with n1 n2 show ?thesis by (intro exI [of _ "n1 @ n2"]) simp
  qed
qed

text \<open>Claim C5. Over any run of raw KV entries through the job puller, and over any run of
  job entries through the puller of the owner, the values stored into the resolved timestamp
  are strictly increasing, starting above the value held before the run, and the resolved
  timestamp at the end is the last value stored (the initial one when nothing was stored).\<close>

theorem resolvedTs_stores_increase:
  "(runEntries env p es = Inr (e, p') \<longrightarrow>
      (\<exists>new. resolvedTsStores p' = resolvedTsStores p @ new
         \<and> sorted_wrt (<) (resolvedTs p # new) \<and> resolvedTs p' = last (resolvedTs p # new)))
   \<and> (runJobEntries h js = (e', h') \<longrightarrow>
      (\<exists>new. resolvedTSStores h' = resolvedTSStores h @ new
         \<and> sorted_wrt (<) (resolvedTS h # new) \<and> resolvedTS h' = last (resolvedTS h # new)))"
  using runEntries_stores [of env p es e p'] runJobEntries_stores [of h js e' h'] by blast

theorem resolvedTs_stores_increase_witness:
  "\<exists>e p' e' h'.
      runEntries demoEnv demoPuller demoEntries = Inr (e, p')
    \<and> resolvedTsStores p' = [5, 10, 12] \<and> sorted_wrt (<) (resolvedTs demoPuller # [5, 10, 12])
    \<and> runJobEntries demoOwner [(1, resolvedEntry 5), (2, resolvedEntry 4), (3, resolvedEntry 9)] = (e', h')
    \<and> resolvedTSStores h' = [5, 9] \<and> sorted_wrt (<) (resolvedTS demoOwner # [5, 9])"
proof -
  obtain e p' where r: "runEntries demoEnv demoPuller demoEntries = Inr (e, p')"
    and s: "resolvedTsStores p' = [5, 10, 12]"
    by (auto simp add: demoEntries_def demoEnv_def demoPuller_def demoRaw_def demoJob_def demoSnapshot_def
      handleRawKVEntry_def unmarshalDDL_def handleJob_def applyJob_def checkIneligibleTableDDL_def
      fillSchemaName_def sendEntry_def getResolvedTs_def setResolvedTs_def Let_def)
  obtain e' h' where r': "runJobEntries demoOwner [(1, resolvedEntry 5), (2, resolvedEntry 4), (3, resolvedEntry 9)] = (e', h')"
    and s': "resolvedTSStores h' = [5, 9]"
    by (auto simp add: demoOwner_def resolvedEntry_def handleDDLJobEntry_def)
  have p0: "resolvedTsStores demoPuller = []" by (simp add: demoPuller_def)
  have h0: "resolvedTSStores demoOwner = []" by (simp add: demoOwner_def)
  from resolvedTs_stores_increase [of demoEnv demoPuller demoEntries e p' demoOwner
      "[(1, resolvedEntry 5), (2, resolvedEntry 4), (3, resolvedEntry 9)]" e' h'] r r' s s' p0 h0
  have "sorted_wrt (<) (resolvedTs demoPuller # [5, 10, 12])
      \<and> sorted_wrt (<) (resolvedTS demoOwner # [5, 9])"
    by auto
  with r r' s s' show ?thesis by blast
qed

subsection \<open>Repeated jobs\<close>

lemma handleDDLJobEntry_pending:
  "handleDDLJobEntry now h e = (r, h') \<Longrightarrow>
     (pendingDDLJobs h' = pendingDDLJobs h \<and> lastDDLJobID h' = lastDDLJobID h)
   \<or> (\<exists>job. EntryOpType e \<noteq> OpTypeResolved \<and> EntryJob e = Some job
          \<and> JobID job \<noteq> lastDDLJobID h
          \<and> pendingDDLJobs h' = pendingDDLJobs h @ [job] \<and> lastDDLJobID h' = JobID job)"
  by (auto simp: handleDDLJobEntry_def split: if_splits option.splits)

lemma runJobEntries_same_id_after:
  "\<forall>(now, e) \<in> set es. \<forall>job. EntryOpType e \<noteq> OpTypeResolved \<and> EntryJob e = Some job \<longrightarrow> JobID job = i \<Longrightarrow>
   lastDDLJobID h = i \<Longrightarrow> runJobEntries h es = (r, h') \<Longrightarrow>
   pendingDDLJobs h' = pendingDDLJobs h \<and> lastDDLJobID h' = i"
proof (induction es arbitrary: h)
  case Nil
  then show ?case by simp
next
  case (Cons a es)
  obtain now e where a: "a = (now, e)" by (cases a)
  obtain r1 h1 where s: "handleDDLJobEntry now h e = (r1, h1)" by (cases "handleDDLJobEntry now h e")
  from handleDDLJobEntry_pending [OF s] Cons.prems(1,2) a
  have h1: "pendingDDLJobs h1 = pendingDDLJobs h \<and> lastDDLJobID h1 = i"
    by auto
  show ?case
  proof (cases r1)
    case None
    with Cons.prems(3) a s have "runJobEntries h1 es = (r, h')" by simp
    with Cons.IH [of h1] Cons.prems(1) h1 show ?thesis by auto
  next
    case (Some err)
    with Cons.prems(3) a s have "h' = h1" by simp
    with h1 show ?thesis by simp
  qed
qed

lemma runJobEntries_same_id:
  "\<forall>(now, e) \<in> set es. \<forall>job. EntryOpType e \<noteq> OpTypeResolved \<and> EntryJob e = Some job \<longrightarrow> JobID job = i \<Longrightarrow>
   runJobEntries h es = (r, h') \<Longrightarrow>
   pendingDDLJobs h' = pendingDDLJobs h
   \<or> (\<exists>job. JobID job = i \<and> pendingDDLJobs h' = pendingDDLJobs h @ [job])"
proof (induction es arbitrary: h)
  case Nil
  then show ?case by simp
next
  case (Cons a es)
  obtain now e where a: "a = (now, e)" by (cases a)
  obtain r1 h1 where s: "handleDDLJobEntry now h e = (r1, h1)" by (cases "handleDDLJobEntry now h e")
  have rest: "\<forall>(now, e) \<in> set es. \<forall>job. EntryOpType e \<noteq> OpTypeResolved \<and> EntryJob e = Some job \<longrightarrow> JobID job = i"
    using Cons.prems(1) by simp
  show ?case
  proof (cases r1)
    case (Some err)
    with Cons.prems(2) a s have "h' = h1" by simp
    with handleDDLJobEntry_pending [OF s] Cons.prems(1) a show ?thesis by auto
  next
    case None
    with Cons.prems(2) a s have run: "runJobEntries h1 es = (r, h')" by simp
    from handleDDLJobEntry_pending [OF s]
    show ?thesis
    proof
      assume "pendingDDLJobs h1 = pendingDDLJobs h \<and> lastDDLJobID h1 = lastDDLJobID h"
      with Cons.IH [OF rest run] show ?thesis by simp
    next
      assume "\<exists>job. EntryOpType e \<noteq> OpTypeResolved \<and> EntryJob e = Some job
          \<and> JobID job \<noteq> lastDDLJobID h
          \<and> pendingDDLJobs h1 = pendingDDLJobs h @ [job] \<and> lastDDLJobID h1 = JobID job"
      then obtain job where j: "EntryOpType e \<noteq> OpTypeResolved" "EntryJob e = Some job"
        "pendingDDLJobs h1 = pendingDDLJobs h @ [job]" "lastDDLJobID h1 = JobID job" by blast
      with Cons.prems(1) a have "JobID job = i" by auto
      with runJobEntries_same_id_after [OF rest _ run] j show ?thesis by auto
    qed
  qed
qed

text \<open>Claim C9. An entry that is not a resolved marker and carries a job whose id is the id
  of the job accepted last is ignored; a job with another id is appended and becomes the job
  accepted last. So a run of entries whose jobs all have one id appends at most one job to
  the pending queue, also with resolved markers and entries without a job in between.\<close>

theorem handleDDLJobEntry_ignores_repeated_job:
  "(EntryOpType e \<noteq> OpTypeResolved \<and> EntryErr e = None \<and> EntryJob e = Some job
      \<and> JobID job = lastDDLJobID h
     \<longrightarrow> handleDDLJobEntry now h e = (None, h))
   \<and> (EntryOpType e \<noteq> OpTypeResolved \<and> EntryErr e = None \<and> EntryJob e = Some job
      \<and> JobID job \<noteq> lastDDLJobID h
     \<longrightarrow> handleDDLJobEntry now h e
           = (None, h\<lparr>pendingDDLJobs := pendingDDLJobs h @ [job], lastDDLJobID := JobID job\<rparr>))
   \<and> ((\<forall>(now, e) \<in> set es. \<forall>job.
          EntryOpType e \<noteq> OpTypeResolved \<and> EntryJob e = Some job \<longrightarrow> JobID job = i)
      \<and> runJobEntries h es = (r, h')
     \<longrightarrow> (pendingDDLJobs h' = pendingDDLJobs h
          \<or> (\<exists>job. JobID job = i \<and> pendingDDLJobs h' = pendingDDLJobs h @ [job])))"
proof (intro conjI impI, goal_cases)
  case 1
  then show ?case by (simp add: handleDDLJobEntry_def)
next
  case 2
  then show ?case by (simp add: handleDDLJobEntry_def)
next
  case 3
  then show ?case using runJobEntries_same_id [of es i h r h'] by blast
qed

theorem handleDDLJobEntry_ignores_repeated_job_witness:
  "\<exists>r h'. runJobEntries demoOwner
       [(1, jobEntry (demoJob ActionCreateTable 10 1 \<lparr>TableInfo_ID = 1, TableInfo_Name = ''a''\<rparr> 10)),
        (2, jobEntry (demoJob ActionCreateTable 10 1 \<lparr>TableInfo_ID = 1, TableInfo_Name = ''a''\<rparr> 10)),
        (3, resolvedEntry 11),
        (4, jobEntry (demoJob ActionCreateTable 10 1 \<lparr>TableInfo_ID = 1, TableInfo_Name = ''a''\<rparr> 10))]
       = (r, h')
     \<and> pendingDDLJobs h' = [demoJob ActionCreateTable 10 1 \<lparr>TableInfo_ID = 1, TableInfo_Name = ''a''\<rparr> 10]"
proof -
  let ?j = "demoJob ActionCreateTable 10 1 \<lparr>TableInfo_ID = 1, TableInfo_Name = ''a''\<rparr> 10"
  let ?es = "[(1, jobEntry ?j), (2, jobEntry ?j), (3, resolvedEntry 11), (4, jobEntry ?j)]"
  obtain r h' where run: "runJobEntries demoOwner ?es = (r, h')"
    by (cases "runJobEntries demoOwner ?es")
  have ids: "\<forall>(now, e) \<in> set ?es. \<forall>job.
          EntryOpType e \<noteq> OpTypeResolved \<and> EntryJob e = Some job \<longrightarrow> JobID job = 7"
    by (simp add: jobEntry_def resolvedEntry_def demoJob_def)
  have first: "pendingDDLJobs (snd (runJobEntries demoOwner ?es)) \<noteq> pendingDDLJobs demoOwner"
    by (simp add: jobEntry_def resolvedEntry_def demoJob_def demoOwner_def handleDDLJobEntry_def)
  have hd: "hd (pendingDDLJobs (snd (runJobEntries demoOwner ?es))) = ?j"
    by (simp add: jobEntry_def resolvedEntry_def demoJob_def demoOwner_def handleDDLJobEntry_def)
  from handleDDLJobEntry_ignores_repeated_job [THEN conjunct2, THEN conjunct2, of ?es 7 demoOwner r h'] ids run
  have "pendingDDLJobs h' = pendingDDLJobs demoOwner
          \<or> (\<exists>job. JobID job = 7 \<and> pendingDDLJobs h' = pendingDDLJobs demoOwner @ [job])"
    by blast
  with first run obtain job where j: "pendingDDLJobs h' = pendingDDLJobs demoOwner @ [job]" by auto
  have "pendingDDLJobs demoOwner = []" by (simp add: demoOwner_def)
  with j hd run have "pendingDDLJobs h' = [?j]" by simp
  with run show ?thesis by blast
qed

subsection \<open>Stale and ignored jobs\<close>

text \<open>Claim C10. For a puller with a schema storage: a job whose finished timestamp is at
  most the resolved timestamp of the puller, or whose schema version is 0, is skipped by
  \<^verbatim>\<open>handleJob\<close> with no error, job and puller unchanged; the raw entry it was decoded from
  sends nothing to the output channel, and leaves schema storage, resolved timestamp and
  its stores as they were.\<close>

theorem handleJob_discards_stale_or_ignored:
  assumes st: "schemaStorage p = Some st"
    and dec: "unmarshalDDL env p raw = (Inr (Some job), p2)"
    and old: "FinishedTS (JobBinlogInfo job) \<le> resolvedTs p \<or> SchemaVersion (JobBinlogInfo job) = 0"
  shows "handleJob env p2 job = Inr (True, None, job, p2)
       \<and> handleRawKVEntry env ctxDone p (Some raw) = Inr (None, p2)
       \<and> schemaStorage p2 = schemaStorage p \<and> resolvedTs p2 = resolvedTs p
       \<and> resolvedTsStores p2 = resolvedTsStores p \<and> outputCh p2 = outputCh p"
proof -
  note fr = unmarshalDDL_frame [OF dec]
  have put: "OpType raw = OpTypePut" by (rule unmarshalDDL_job_is_put [OF dec])
  have hj: "handleJob env p2 job = Inr (True, None, job, p2)"
    using handleJob_skip [of p2 st job env] fr st old by simp
  have "handleRawKVEntry env ctxDone p (Some raw) = Inr (None, p2)"
    using put dec hj by (simp add: handleRawKVEntry_def)
  with hj fr show ?thesis by simp
qed

theorem handleJob_discards_stale_or_ignored_witness:
  "handleJob demoEnv (demoPuller\<lparr>resolvedTs := 10\<rparr>)
       (demoJob (ActionOther 0) 10 1 \<lparr>TableInfo_ID = 1, TableInfo_Name = ''a''\<rparr> 8)
     = Inr (True, None, demoJob (ActionOther 0) 10 1 \<lparr>TableInfo_ID = 1, TableInfo_Name = ''a''\<rparr> 8,
            demoPuller\<lparr>resolvedTs := 10\<rparr>)
   \<and> handleRawKVEntry demoEnv False (demoPuller\<lparr>resolvedTs := 10\<rparr>) (Some (demoRaw OpTypePut 8))
     = Inr (None, demoPuller\<lparr>resolvedTs := 10\<rparr>)"
proof -
  let ?p = "demoPuller\<lparr>resolvedTs := 10\<rparr>"
  let ?j = "demoJob (ActionOther 0) 10 1 \<lparr>TableInfo_ID = 1, TableInfo_Name = ''a''\<rparr> 8"
  have st: "schemaStorage ?p = Some demoSnapshot" by (simp add: demoPuller_def)
  have dec: "unmarshalDDL demoEnv ?p (demoRaw OpTypePut 8) = (Inr (Some ?j), ?p)"
    by (simp add: unmarshalDDL_def demoEnv_def demoRaw_def demoPuller_def)
  have old: "FinishedTS (JobBinlogInfo ?j) \<le> resolvedTs ?p \<or> SchemaVersion (JobBinlogInfo ?j) = 0"
    by (simp add: demoJob_def)
  from handleJob_discards_stale_or_ignored [OF st dec old, of False] show ?thesis by simp
qed

section \<open>Properties of the MySQL sink backend\<close>



subsection \<open>Accepting an event\<close>

text \<open>Claim C8. \<^verbatim>\<open>OnTxnEvent\<close> appends the event to the buffer, adds the number of its rows
  to the running total, and returns \<^verbatim>\<open>needFlush\<close> true exactly when the event carries the
  wait-flush hint or the total after the addition is at least \<^verbatim>\<open>MaxTxnRow\<close>; it leaves the
  configuration and the callbacks called so far alone.\<close>

theorem OnTxnEvent_accepts:
  "events (snd (OnTxnEvent s event)) = events s @ [event]
   \<and> rows (snd (OnTxnEvent s event)) = rows s + int (length (Rows event))
   \<and> fst (OnTxnEvent s event)
       = (ToWaitFlush event \<or> rows s + int (length (Rows event)) \<ge> MaxTxnRow (cfg s))
   \<and> cfg (snd (OnTxnEvent s event)) = cfg s
   \<and> invoked (snd (OnTxnEvent s event)) = invoked s"
  by (simp add: OnTxnEvent_def Let_def)

subsection \<open>INSERT or REPLACE\<close>















subsection \<open>Statements and values\<close>



lemma lockstep_upd [simp]:
  "lockstep (st\<lparr>ps_approximateSize := a\<rparr>) = lockstep st"
  "lockstep (st\<lparr>ps_replaces := b\<rparr>) = lockstep st"
  "lockstep (st\<lparr>ps_rowCount := d\<rparr>) = lockstep st"
  "lockstep (st\<lparr>ps_startTs := e\<rparr>) = lockstep st"
  "lockstep (st\<lparr>ps_translateToInsert := f\<rparr>) = lockstep st"
  "lockstep (st\<lparr>ps_callbacks := g\<rparr>) = lockstep st"
  by (simp_all add: lockstep_def)









subsection \<open>Errors that are not retried, and callbacks\<close>





lemma Cause_logged:
  "Cause (logDMLTxnErr (wrapMysqlTxnError (Raw c)) q) = c"
  by (simp add: logDMLTxnErr_def wrapMysqlTxnError_def Let_def split: option.splits)








end
